theory Spec2Isabelle
  imports Complex_Main
begin

section \<open>Model gateway action creators\<close>

text \<open>
  A shallow embedding of
  \<^verbatim>\<open>mlflow/server/js/src/experiment-tracking/actions/ModelGatewayActions.ts\<close>.
  The file exports three action creators. Each one evaluates an object literal whose
  properties are computed left to right: the constant \<open>type\<close>, then \<open>payload\<close> (a call
  of the proxy client, which starts a network request and hands back its promise), then
  \<open>meta\<close> (a call of \<open>getUUID\<close> and, for the invoke creator, of \<open>performance.now\<close>).
  The calls have effects outside the file, so the creators are state transformers on a
  \<open>world\<close> that holds what those effects touch.
\<close>

subsection \<open>Values\<close>

text \<open>
  JavaScript values as far as the file builds or forwards them: the JSON bodies of the
  request descriptors and the caller's query payload. An object is its list of own
  properties in insertion order. \<open>JUndefined\<close> is the value of an omitted argument.
\<close>

datatype jsval =
    JUndefined
  | JNull
  | JBool bool
  | JNum real
  | JStr string
  | JArr "jsval list"
  | JObj "(string \<times> jsval) list"

text \<open>
  The request descriptor handed to the proxy client, the object literal
  \<^verbatim>\<open>{ gateway_path: ..., json_data: ... }\<close>.
\<close>

record request =
  gateway_path :: string
  json_data :: jsval

datatype http_method = GET | POST

text \<open>
  \<open>ModelGatewayRoute\<close> is declared in \<^verbatim>\<open>../sdk/ModelGatewayService\<close>; the creators read
  its \<open>name\<close> only. Every further field of a route lives in the extension part of the
  record, so the creators are defined on \<open>'a ModelGatewayRoute_scheme\<close>.
\<close>

record ModelGatewayRoute =
  name :: string

subsection \<open>Promises and the world\<close>

text \<open>
  A promise is a handle into the world's table of network calls; two promises are the
  same object exactly when their handles are equal. A handler attached with
  \<^verbatim>\<open>then\<close> or \<^verbatim>\<open>catch\<close> would allocate a new promise, and a retry a new call.
\<close>

type_synonym promise = nat

datatype promise_state = Pending | Fulfilled jsval | Rejected jsval

record network_call =
  call_method :: http_method
  call_request :: request
  call_state :: promise_state

text \<open>
  The world: the calls issued so far through the proxy client (the promise of the
  \<open>i\<close>-th call is the handle \<open>i\<close>), the values the correlation-id generator returns
  (its \<open>n\<close>-th call returns \<open>uuid_src n\<close>) with the number of calls made, and the
  readings of the high-resolution clock (its \<open>n\<close>-th reading is \<open>clock_src n\<close>) with
  the number of readings taken. Nothing is assumed of \<open>uuid_src\<close> or \<open>clock_src\<close>.
\<close>

record world =
  calls :: "network_call list"
  uuid_src :: "nat \<Rightarrow> string"
  uuid_calls :: nat
  clock_src :: "nat \<Rightarrow> real"
  clock_reads :: nat

text \<open>
  Modelled from the spec: \<open>MlflowService.gatewayProxyGet\<close> and
  \<open>MlflowService.gatewayProxyPost\<close> (\<^verbatim>\<open>experiment-tracking/sdk/MlflowService\<close>) are
  missing from the sources at hand. The spec describes ``a generic proxy client exposing
  \<open>gatewayProxyGet(request)\<close> / \<open>gatewayProxyPost(request)\<close> returning promises of JSON'':
  a call starts one HTTP request with the given descriptor and returns its promise,
  pending.
\<close>

definition gatewayProxy :: "http_method \<Rightarrow> request \<Rightarrow> world \<Rightarrow> promise \<times> world" where
  "gatewayProxy m req w =
     (length (calls w),
      w\<lparr>calls := calls w @ [\<lparr>call_method = m, call_request = req, call_state = Pending\<rparr>]\<rparr>)"

definition gatewayProxyGet :: "request \<Rightarrow> world \<Rightarrow> promise \<times> world" where
  "gatewayProxyGet = gatewayProxy GET"

definition gatewayProxyPost :: "request \<Rightarrow> world \<Rightarrow> promise \<times> world" where
  "gatewayProxyPost = gatewayProxy POST"

text \<open>
  Modelled from the spec: \<open>getUUID\<close> (\<^verbatim>\<open>common/utils/ActionUtils\<close>) is missing from the
  sources at hand; the spec calls it ``a correlation-id generator''. A call returns the
  generator's next value.
\<close>

definition getUUID :: "world \<Rightarrow> string \<times> world" where
  "getUUID w = (uuid_src w (uuid_calls w), w\<lparr>uuid_calls := Suc (uuid_calls w)\<rparr>)"

text \<open>\<open>performance.now()\<close> of the browser: one reading of the clock.\<close>

definition performance_now :: "world \<Rightarrow> real \<times> world" where
  "performance_now w = (clock_src w (clock_reads w), w\<lparr>clock_reads := Suc (clock_reads w)\<rparr>)"

text \<open>The call behind a promise, if the handle is one the proxy client has returned.\<close>

definition call_of :: "world \<Rightarrow> promise \<Rightarrow> network_call option" where
  "call_of w p = (if p < length (calls w) then Some (calls w ! p) else None)"

text \<open>
  Modelled from the spec: ``any HTTP/transport failure rejects the promise''. The
  failure of the call behind \<open>p\<close> with reason \<open>e\<close> settles a pending \<open>p\<close> as rejected
  with \<open>e\<close>; a settled promise stays as it is.
\<close>

definition transport_failure :: "promise \<Rightarrow> jsval \<Rightarrow> world \<Rightarrow> world" where
  "transport_failure p e w =
     (case call_of w p of
        None \<Rightarrow> w
      | Some c \<Rightarrow>
          (if call_state c = Pending
           then w\<lparr>calls := (calls w)[p := c\<lparr>call_state := Rejected e\<rparr>]\<rparr>
           else w))"

subsection \<open>Actions\<close>

text \<open>
  The action envelope \<^verbatim>\<open>{ type, payload, meta: { id, startTime? } }\<close>. The casts
  \<^verbatim>\<open>as Promise<...>\<close> of the source are erased at run time. An absent \<open>startTime\<close>
  is \<open>None\<close>.
\<close>

record action_meta =
  id' :: string
  startTime :: "real option"

record action =
  type' :: string
  payload :: promise
  meta :: action_meta

definition SEARCH_MODEL_GATEWAY_ROUTES_API :: string where
  "SEARCH_MODEL_GATEWAY_ROUTES_API = ''SEARCH_MODEL_GATEWAY_ROUTES_API''"

definition GET_MODEL_GATEWAY_ROUTE_API :: string where
  "GET_MODEL_GATEWAY_ROUTE_API = ''GET_MODEL_GATEWAY_ROUTE_API''"

definition QUERY_MODEL_GATEWAY_ROUTE_API :: string where
  "QUERY_MODEL_GATEWAY_ROUTE_API = ''QUERY_MODEL_GATEWAY_ROUTE_API''"

text \<open>
  \<^verbatim>\<open>searchModelGatewayRoutesApi = (filter?: string) => ({ ... })\<close>. The optional
  argument is \<open>None\<close> when omitted; the body then binds the key \<open>filter\<close> to
  \<open>undefined\<close>.
\<close>

definition searchModelGatewayRoutesApi :: "string option \<Rightarrow> world \<Rightarrow> action \<times> world" where
  "searchModelGatewayRoutesApi filter_arg w =
     (let (p, w1) = gatewayProxyGet
            \<lparr>gateway_path = ''api/2.0/gateway/routes/'',
             json_data = JObj [(''filter'',
               (case filter_arg of None \<Rightarrow> JUndefined | Some f \<Rightarrow> JStr f))]\<rparr> w;
          (u, w2) = getUUID w1
      in (\<lparr>type' = SEARCH_MODEL_GATEWAY_ROUTES_API, payload = p,
           meta = \<lparr>id' = u, startTime = None\<rparr>\<rparr>, w2))"

text \<open>\<^verbatim>\<open>getModelGatewayRouteApi = (routeName: string) => ({ ... })\<close>.\<close>

definition getModelGatewayRouteApi :: "string \<Rightarrow> world \<Rightarrow> action \<times> world" where
  "getModelGatewayRouteApi routeName w =
     (let (p, w1) = gatewayProxyGet
            \<lparr>gateway_path = ''api/2.0/gateway/routes/'' @ routeName,
             json_data = JObj []\<rparr> w;
          (u, w2) = getUUID w1
      in (\<lparr>type' = GET_MODEL_GATEWAY_ROUTE_API, payload = p,
           meta = \<lparr>id' = u, startTime = None\<rparr>\<rparr>, w2))"

text \<open>
  \<^verbatim>\<open>queryModelGatewayRouteApi = (route, data) => { return { ... }; }\<close>. The shorthand
  \<^verbatim>\<open>{ data }\<close> is the object with the one key \<open>data\<close>.
\<close>

definition queryModelGatewayRouteApi ::
  "'a ModelGatewayRoute_scheme \<Rightarrow> jsval \<Rightarrow> world \<Rightarrow> action \<times> world" where
  "queryModelGatewayRouteApi route data w =
     (let (p, w1) = gatewayProxyPost
            \<lparr>gateway_path = ''api/2.0/gateway/'' @ name route @ ''/invocations'',
             json_data = JObj [(''data'', data)]\<rparr> w;
          (u, w2) = getUUID w1;
          (t, w3) = performance_now w2
      in (\<lparr>type' = QUERY_MODEL_GATEWAY_ROUTE_API, payload = p,
           meta = \<lparr>id' = u, startTime = Some t\<rparr>\<rparr>, w3))"

subsection \<open>Invocations\<close>

text \<open>
  One invocation of one of the three creators with its arguments, and a run of
  invocations one after the other, each in the world the one before left behind.
\<close>

datatype 'a invocation =
    Search "string option"
  | GetRoute string
  | Query "'a ModelGatewayRoute_scheme" jsval

fun invoke :: "'a invocation \<Rightarrow> world \<Rightarrow> action \<times> world" where
  "invoke (Search filter_arg) w = searchModelGatewayRoutesApi filter_arg w"
| "invoke (GetRoute routeName) w = getModelGatewayRouteApi routeName w"
| "invoke (Query route data) w = queryModelGatewayRouteApi route data w"

fun invoke_all :: "'a invocation list \<Rightarrow> world \<Rightarrow> action list \<times> world" where
  "invoke_all [] w = ([], w)"
| "invoke_all (c # cs) w =
     (let (a, w1) = invoke c w; (as, w2) = invoke_all cs w1 in (a # as, w2))"

text \<open>
  A world to evaluate the creators in: no call issued yet, a generator whose \<open>n\<close>-th
  value is \<open>n + 1\<close> letters \<open>u\<close>, a clock whose \<open>n\<close>-th reading is \<open>n\<close>.
\<close>

definition fresh_world :: world where
  "fresh_world =
     \<lparr>calls = [], uuid_src = (\<lambda>n. replicate (Suc n) CHR ''u''), uuid_calls = 0,
      clock_src = real, clock_reads = 0\<rparr>"

section \<open>Properties\<close>

lemmas creator_defs =
  searchModelGatewayRoutesApi_def getModelGatewayRouteApi_def queryModelGatewayRouteApi_def
  gatewayProxyGet_def gatewayProxyPost_def gatewayProxy_def getUUID_def performance_now_def

text \<open>
  C1. For every route and query payload, the promise in the action of
  \<open>queryModelGatewayRouteApi\<close> is that of a POST request whose gateway path is
  \<open>api/2.0/gateway/{route.name}/invocations\<close> and whose JSON body is \<open>{data: payload}\<close>; for
  the route \<open>{name: "chat"}\<close> and the payload \<open>{prompt: "hi"}\<close> the path is
  \<open>api/2.0/gateway/chat/invocations\<close> and the body \<open>{data: {prompt: "hi"}}\<close>.
\<close>

theorem query_request_descriptor:
  "(case queryModelGatewayRouteApi route data w of (a, w') \<Rightarrow> call_of w' (payload a))
     = Some \<lparr>call_method = POST,
             call_request = \<lparr>gateway_path = ''api/2.0/gateway/'' @ name route @ ''/invocations'',
                             json_data = JObj [(''data'', data)]\<rparr>,
             call_state = Pending\<rparr>
   \<and> (case queryModelGatewayRouteApi \<lparr>name = ''chat''\<rparr> (JObj [(''prompt'', JStr ''hi'')]) w
        of (a, w') \<Rightarrow> call_of w' (payload a))
     = Some \<lparr>call_method = POST,
             call_request = \<lparr>gateway_path = ''api/2.0/gateway/chat/invocations'',
                             json_data = JObj [(''data'', JObj [(''prompt'', JStr ''hi'')])]\<rparr>,
             call_state = Pending\<rparr>"
  by (simp add: creator_defs call_of_def)

text \<open>
  C2. For every filter string, the promise in the action of
  \<open>searchModelGatewayRoutesApi\<close> is that of a GET request whose gateway path is
  \<open>api/2.0/gateway/routes/\<close> and whose JSON body has the filter string itself under the key
  \<open>filter\<close>.
\<close>

theorem search_request_descriptor:
  "(case searchModelGatewayRoutesApi (Some f) w of (a, w') \<Rightarrow> call_of w' (payload a))
     = Some \<lparr>call_method = GET,
             call_request = \<lparr>gateway_path = ''api/2.0/gateway/routes/'',
                             json_data = JObj [(''filter'', JStr f)]\<rparr>,
             call_state = Pending\<rparr>"
  by (simp add: creator_defs call_of_def)

text \<open>
  C3. For every route name, the promise in the action of \<open>getModelGatewayRouteApi\<close> is that
  of a GET request whose gateway path is \<open>api/2.0/gateway/routes/{name}\<close>; the name
  \<open>chat\<close> gives the path \<open>api/2.0/gateway/routes/chat\<close>.
\<close>

theorem get_request_path:
  "(case getModelGatewayRouteApi routeName w of (a, w') \<Rightarrow>
      map_option (\<lambda>c. (call_method c, gateway_path (call_request c))) (call_of w' (payload a)))
     = Some (GET, ''api/2.0/gateway/routes/'' @ routeName)
   \<and> (case getModelGatewayRouteApi ''chat'' w of (a, w') \<Rightarrow>
      map_option (\<lambda>c. (call_method c, gateway_path (call_request c))) (call_of w' (payload a)))
     = Some (GET, ''api/2.0/gateway/routes/chat'')"
  by (simp add: creator_defs call_of_def)

subsection \<open>Correlation ids\<close>

text \<open>
  Every creator calls \<open>getUUID\<close> once and stores what it returns in \<open>meta.id\<close>; nothing
  else of the file touches the generator.
\<close>

lemma invoke_id: "id' (meta (fst (invoke c w))) = uuid_src w (uuid_calls w)"
  by (cases c) (simp_all add: creator_defs)

lemma invoke_uuid_src: "uuid_src (snd (invoke c w)) = uuid_src w"
  by (cases c) (simp_all add: creator_defs)

lemma invoke_uuid_calls: "uuid_calls (snd (invoke c w)) = Suc (uuid_calls w)"
  by (cases c) (simp_all add: creator_defs)

lemma invoke_all_ids:
  "map (\<lambda>a. id' (meta a)) (fst (invoke_all cs w))
     = map (uuid_src w) [uuid_calls w ..< uuid_calls w + length cs]"
proof (induction cs arbitrary: w)
  case Nil
  show ?case by simp
next
  case (Cons c cs)
  obtain a w1 where c: "invoke c w = (a, w1)"
    by (cases "invoke c w")
  from c have a: "id' (meta a) = uuid_src w (uuid_calls w)"
    using invoke_id [of c w] by simp
  from c have w1: "uuid_src w1 = uuid_src w" "uuid_calls w1 = Suc (uuid_calls w)"
    using invoke_uuid_src [of c w] invoke_uuid_calls [of c w] by simp_all
  have "[uuid_calls w ..< uuid_calls w + length (c # cs)]
          = uuid_calls w # [Suc (uuid_calls w) ..< Suc (uuid_calls w) + length cs]"
    by (simp add: upt_conv_Cons del: upt_Suc)
  with Cons.IH [of w1] c a w1 show ?case
    by (simp add: split_beta)
qed

text \<open>
  Without a fresh generator the ids do collide: the creators add nothing of their own
  to what \<open>getUUID\<close> returns.
\<close>

lemma ids_collide_on_constant_generator:
  "map (\<lambda>a. id' (meta a))
     (fst (invoke_all [Search None, GetRoute ''chat'' :: unit invocation]
        (fresh_world\<lparr>uuid_src := (\<lambda>n. ''same'')\<rparr>)))
   = [''same'', ''same'']"
  by (simp add: creator_defs fresh_world_def)

text \<open>
  C4. If \<open>getUUID\<close> returns a fresh value on every call (the sequence of its values has
  no repetition), then in every run of invocations of the three creators, in any
  combination, the actions of any two distinct invocations have distinct \<open>meta.id\<close>.
\<close>

theorem meta_ids_distinct:
  assumes "inj (uuid_src w)"
  shows "distinct (map (\<lambda>a. id' (meta a)) (fst (invoke_all cs w)))"
proof -
  have "inj_on (uuid_src w) (set [uuid_calls w ..< uuid_calls w + length cs])"
    using assms by (rule inj_on_subset) simp
  then show ?thesis
    by (simp only: invoke_all_ids distinct_map distinct_upt simp_thms)
qed

theorem meta_ids_distinct_witness:
  "inj (uuid_src fresh_world)
   \<and> distinct (map (\<lambda>a. id' (meta a))
       (fst (invoke_all
          [Search None, GetRoute ''chat'',
           Query \<lparr>name = ''chat''\<rparr> (JObj [(''prompt'', JStr ''hi'')]),
           Search (Some ''chat''), Query \<lparr>name = ''chat''\<rparr> (JObj [(''prompt'', JStr ''hi'')])]
          fresh_world)))"
proof -
  have fresh: "inj (uuid_src fresh_world)"
    by (simp add: fresh_world_def inj_def)
  show ?thesis
    by (rule conjI [OF fresh meta_ids_distinct [OF fresh]])
qed

text \<open>
  The same holds for two invocations with anything in between that leaves the
  generator's sequence alone and only moves it forward.
\<close>

lemma meta_ids_distinct_later:
  assumes "inj (uuid_src w)" and "uuid_src w2 = uuid_src w"
    and "uuid_calls (snd (invoke c1 w)) \<le> uuid_calls w2"
  shows "id' (meta (fst (invoke c1 w))) \<noteq> id' (meta (fst (invoke c2 w2)))"
proof -
  from assms(3) have "uuid_calls w \<noteq> uuid_calls w2"
    by (simp add: invoke_uuid_calls)
  with assms(1,2) show ?thesis
    by (simp add: invoke_id inj_eq)
qed

subsection \<open>Start time\<close>

text \<open>
  C5. \<open>queryModelGatewayRouteApi\<close> records the call's start time: \<open>meta.startTime\<close> of its
  action is the reading of the clock taken while the action is created, the one reading
  it takes. The actions of \<open>searchModelGatewayRoutesApi\<close> and \<open>getModelGatewayRouteApi\<close>
  have a \<open>meta\<close> with \<open>id\<close> only and no \<open>startTime\<close>, and the clock is not read.
\<close>

theorem start_time_recorded_by_query_only:
  "startTime (meta (fst (queryModelGatewayRouteApi route data w)))
     = Some (clock_src w (clock_reads w))
   \<and> startTime (meta (fst (queryModelGatewayRouteApi route data w)))
     = Some (fst (performance_now
         (snd (getUUID (snd (gatewayProxyPost
           \<lparr>gateway_path = ''api/2.0/gateway/'' @ name route @ ''/invocations'',
            json_data = JObj [(''data'', data)]\<rparr> w))))))
   \<and> clock_reads (snd (queryModelGatewayRouteApi route data w)) = Suc (clock_reads w)
   \<and> meta (fst (searchModelGatewayRoutesApi filter_arg w))
     = \<lparr>id' = uuid_src w (uuid_calls w), startTime = None\<rparr>
   \<and> clock_reads (snd (searchModelGatewayRoutesApi filter_arg w)) = clock_reads w
   \<and> meta (fst (getModelGatewayRouteApi routeName w))
     = \<lparr>id' = uuid_src w (uuid_calls w), startTime = None\<rparr>
   \<and> clock_reads (snd (getModelGatewayRouteApi routeName w)) = clock_reads w"
  by (simp add: creator_defs)

subsection \<open>The promise of the action\<close>

text \<open>
  C6. No creator handles errors itself. The promise in the action is the very promise
  the proxy client returned for the creator's request, and no further promise or call
  exists afterwards (no handler attached, nothing transformed, nothing retried); so a
  transport failure of that call rejects the action's promise with the failure's own
  reason.
\<close>

theorem payload_is_proxy_promise:
  "(let req = \<lparr>gateway_path = ''api/2.0/gateway/routes/'',
               json_data = JObj [(''filter'',
                 (case filter_arg of None \<Rightarrow> JUndefined | Some f \<Rightarrow> JStr f))]\<rparr>;
        (a, w') = searchModelGatewayRoutesApi filter_arg w
    in payload a = fst (gatewayProxyGet req w)
       \<and> calls w' = calls (snd (gatewayProxyGet req w))
       \<and> map_option call_state (call_of (transport_failure (payload a) e w') (payload a))
           = Some (Rejected e))
   \<and> (let req = \<lparr>gateway_path = ''api/2.0/gateway/routes/'' @ routeName,
               json_data = JObj []\<rparr>;
        (a, w') = getModelGatewayRouteApi routeName w
    in payload a = fst (gatewayProxyGet req w)
       \<and> calls w' = calls (snd (gatewayProxyGet req w))
       \<and> map_option call_state (call_of (transport_failure (payload a) e w') (payload a))
           = Some (Rejected e))
   \<and> (let req = \<lparr>gateway_path = ''api/2.0/gateway/'' @ name route @ ''/invocations'',
               json_data = JObj [(''data'', data)]\<rparr>;
        (a, w') = queryModelGatewayRouteApi route data w
    in payload a = fst (gatewayProxyPost req w)
       \<and> calls w' = calls (snd (gatewayProxyPost req w))
       \<and> map_option call_state (call_of (transport_failure (payload a) e w') (payload a))
           = Some (Rejected e))"
  by (simp add: creator_defs call_of_def transport_failure_def)

text \<open>
  C7. Every creator calls the proxy client exactly once: afterwards the calls issued are
  those before and one more. The action it returns has its exported constant as
  \<open>type\<close>, the constant being the string of its own name, and the pending promise of
  that one call as \<open>payload\<close>.
\<close>

theorem one_proxy_call_per_action:
  "(case searchModelGatewayRoutesApi filter_arg w of (a, w') \<Rightarrow>
      (\<exists>c. calls w' = calls w @ [c] \<and> call_of w' (payload a) = Some c
           \<and> call_method c = GET \<and> call_state c = Pending)
      \<and> payload a = length (calls w)
      \<and> type' a = SEARCH_MODEL_GATEWAY_ROUTES_API
      \<and> type' a = ''SEARCH_MODEL_GATEWAY_ROUTES_API'')
   \<and> (case getModelGatewayRouteApi routeName w of (a, w') \<Rightarrow>
      (\<exists>c. calls w' = calls w @ [c] \<and> call_of w' (payload a) = Some c
           \<and> call_method c = GET \<and> call_state c = Pending)
      \<and> payload a = length (calls w)
      \<and> type' a = GET_MODEL_GATEWAY_ROUTE_API
      \<and> type' a = ''GET_MODEL_GATEWAY_ROUTE_API'')
   \<and> (case queryModelGatewayRouteApi route data w of (a, w') \<Rightarrow>
      (\<exists>c. calls w' = calls w @ [c] \<and> call_of w' (payload a) = Some c
           \<and> call_method c = POST \<and> call_state c = Pending)
      \<and> payload a = length (calls w)
      \<and> type' a = QUERY_MODEL_GATEWAY_ROUTE_API
      \<and> type' a = ''QUERY_MODEL_GATEWAY_ROUTE_API'')"
  by (simp add: creator_defs call_of_def SEARCH_MODEL_GATEWAY_ROUTES_API_def
      GET_MODEL_GATEWAY_ROUTE_API_def QUERY_MODEL_GATEWAY_ROUTE_API_def)

subsection \<open>What the request depends on\<close>

text \<open>
  C8. \<open>queryModelGatewayRouteApi\<close> depends on its route through \<open>name\<close> only: for two
  routes of equal \<open>name\<close>, whatever their other fields, and the same query payload it
  builds the same request descriptor (the same gateway path and the same JSON body),
  and indeed the same action and the same world.
\<close>

theorem query_depends_on_route_name_only:
  assumes "name route1 = name route2"
  shows "map_option call_request
           (call_of (snd (queryModelGatewayRouteApi route1 data w))
              (payload (fst (queryModelGatewayRouteApi route1 data w))))
         = map_option call_request
           (call_of (snd (queryModelGatewayRouteApi route2 data w))
              (payload (fst (queryModelGatewayRouteApi route2 data w))))
       \<and> map_option call_request
           (call_of (snd (queryModelGatewayRouteApi route1 data w))
              (payload (fst (queryModelGatewayRouteApi route1 data w))))
         = Some \<lparr>gateway_path = ''api/2.0/gateway/'' @ name route2 @ ''/invocations'',
                 json_data = JObj [(''data'', data)]\<rparr>
       \<and> queryModelGatewayRouteApi route1 data w = queryModelGatewayRouteApi route2 data w"
  using assms by (simp add: creator_defs call_of_def)

theorem query_depends_on_route_name_only_witness:
  "name \<lparr>name = ''chat'', \<dots> = ''llm/v1/chat''\<rparr> = name \<lparr>name = ''chat'', \<dots> = False\<rparr>
   \<and> queryModelGatewayRouteApi \<lparr>name = ''chat'', \<dots> = ''llm/v1/chat''\<rparr>
        (JObj [(''prompt'', JStr ''hi'')]) fresh_world
     = queryModelGatewayRouteApi \<lparr>name = ''chat'', \<dots> = False\<rparr>
        (JObj [(''prompt'', JStr ''hi'')]) fresh_world"
proof -
  have same: "name \<lparr>name = ''chat'', \<dots> = ''llm/v1/chat''\<rparr> = name \<lparr>name = ''chat'', \<dots> = False\<rparr>"
    by simp
  show ?thesis
    using same query_depends_on_route_name_only [OF same] by blast
qed

text \<open>
  C9. \<open>getModelGatewayRouteApi\<close> always sends the empty object as JSON body: the route
  name is in the gateway path and nowhere in the body.
\<close>

theorem get_request_body_empty:
  "(case getModelGatewayRouteApi routeName w of (a, w') \<Rightarrow>
      map_option (\<lambda>c. json_data (call_request c)) (call_of w' (payload a)))
     = Some (JObj [])"
  by (simp add: creator_defs call_of_def)

text \<open>
  C10. With the filter omitted, \<open>searchModelGatewayRoutesApi\<close> still issues its one GET
  request, and the JSON body of the request has the key \<open>filter\<close>, bound to
  \<open>undefined\<close>.
\<close>

theorem search_without_filter:
  "(case searchModelGatewayRoutesApi None w of (a, w') \<Rightarrow>
      calls w' = calls w @
        [\<lparr>call_method = GET,
          call_request = \<lparr>gateway_path = ''api/2.0/gateway/routes/'',
                          json_data = JObj [(''filter'', JUndefined)]\<rparr>,
          call_state = Pending\<rparr>]
      \<and> call_of w' (payload a) =
        Some \<lparr>call_method = GET,
          call_request = \<lparr>gateway_path = ''api/2.0/gateway/routes/'',
                          json_data = JObj [(''filter'', JUndefined)]\<rparr>,
          call_state = Pending\<rparr>)"
  by (simp add: creator_defs call_of_def)

end
